theory Spec2Isabelle
  imports Complex_Main "HOL-Library.Log_Nat" "HOL-Library.Sublist"
begin

section \<open>Python values used by \<open>backend/main.py\<close>\<close>

subsection \<open>Exceptions\<close>

text \<open>
  Every exception the module can let escape is a value. \<open>HTTPException\<close> carries the
  status code and the detail string of line 52 and line 166; \<open>IndexError\<close> is what
  \<open>xs[0]\<close> raises on an empty list; \<open>CollaboratorError\<close> stands for whatever an external
  library call (embedding, text generation, cosine similarity) raises.
\<close>

datatype error = HTTPException nat string | IndexError | CollaboratorError string

subsection \<open>Strings\<close>

text \<open>
  A Python \<open>str\<close> is modelled as a \<open>string\<close>: a list of code points below 256.
  \<open>str.isspace\<close>, \<open>str.lower\<close>, \<open>str.split()\<close>, \<open>str.strip()\<close> and \<open>sep.join\<close> are
  written out for that range: the white space characters are 9 to 13, 28 to 32, 133
  and 160; the upper-case letters are 65 to 90 and 192 to 222 without 215.
\<close>

definition isspace :: "char \<Rightarrow> bool" where
  "isspace c =
     (let n = (of_char c :: nat)
      in (9 \<le> n \<and> n \<le> 13) \<or> (28 \<le> n \<and> n \<le> 32) \<or> n = 133 \<or> n = 160)"

definition lower_char :: "char \<Rightarrow> char" where
  "lower_char c =
     (let n = (of_char c :: nat)
      in if (65 \<le> n \<and> n \<le> 90) \<or> (192 \<le> n \<and> n \<le> 222 \<and> n \<noteq> 215)
         then char_of (n + 32) else c)"

definition str_lower :: "string \<Rightarrow> string" where
  "str_lower s = map lower_char s"

text \<open>
  \<open>s.split()\<close> without a separator: the maximal runs of characters that are not white
  space, in order. \<open>cur\<close> is the run being read.
\<close>

fun split_from :: "string \<Rightarrow> string \<Rightarrow> string list" where
  "split_from cur [] = (if cur = [] then [] else [cur])"
| "split_from cur (c # cs) =
     (if isspace c then (if cur = [] then split_from [] cs else cur # split_from [] cs)
      else split_from (cur @ [c]) cs)"

definition str_split :: "string \<Rightarrow> string list" where
  "str_split s = split_from [] s"

fun str_join :: "string \<Rightarrow> string list \<Rightarrow> string" where
  "str_join sep [] = []"
| "str_join sep [x] = x"
| "str_join sep (x # y # ys) = x @ sep @ str_join sep (y # ys)"

definition str_strip :: "string \<Rightarrow> string" where
  "str_strip s = rev (dropWhile isspace (rev (dropWhile isspace s)))"

subsection \<open>Floats\<close>

text \<open>
  A Python \<open>float\<close> is an IEEE 754 binary64 number. The finite ones are modelled by
  their exact rational value, and every arithmetic operation returns the exact result
  rounded to the nearest number with a 53 bit significand, ties to the even
  significand. The exponent range is not bounded in the model: overflow to infinity,
  gradual underflow and NaN are outside it.
\<close>

type_synonym pyfloat = rat

definition round_half_even :: "rat \<Rightarrow> int" where
  "round_half_even x =
     (let n = \<lfloor>x\<rfloor>; d = x - of_int n
      in if d < 1 / 2 then n else if 1 / 2 < d then n + 1
         else if even n then n else n + 1)"

text \<open>For \<open>x \<noteq> 0\<close>, the exponent \<open>e\<close> with \<open>2\<^sup>e \<le> |x| < 2\<^sup>e\<^sup>+\<^sup>1\<close>.\<close>

definition float_exponent :: "rat \<Rightarrow> int" where
  "float_exponent x =
     (if 1 \<le> \<bar>x\<bar> then bitlen \<lfloor>\<bar>x\<bar>\<rfloor> - 1 else - bitlen (\<lceil>1 / \<bar>x\<bar>\<rceil> - 1))"

definition binary64 :: "rat \<Rightarrow> pyfloat" where
  "binary64 x =
     (if x = 0 then 0
      else let ulp = 2 powi (float_exponent x - 52)
           in of_int (round_half_even (x / ulp)) * ulp)"

definition fadd :: "pyfloat \<Rightarrow> pyfloat \<Rightarrow> pyfloat" where
  "fadd a b = binary64 (a + b)"

definition fmul :: "pyfloat \<Rightarrow> pyfloat \<Rightarrow> pyfloat" where
  "fmul a b = binary64 (a * b)"

type_synonym vec = "pyfloat list"

subsection \<open>Dictionaries read with \<open>get\<close>\<close>

text \<open>
  A signal is the JSON object of \<open>data/signals.json\<close>, with the fields and types of the
  data model. Every field is optional, since the code reads each one with \<open>dict.get\<close>:
  \<open>None\<close> is a key that is absent. For \<open>embedding\<close>, which line 128 reads with
  \<open>signal.get("embedding")\<close> and no default, \<open>None\<close> is also a key holding JSON \<open>null\<close>:
  both give Python's \<open>None\<close>.
\<close>

record signal =
  category :: "string option"
  title :: "string option"
  description :: "string option"
  budget :: "rat option"
  timeline :: "string option"
  keywords_list :: "string list option"
  stakeholders :: "string list option"
  embedding :: "vec option"

definition dict_get :: "'a option \<Rightarrow> 'a \<Rightarrow> 'a" where
  "dict_get field dflt = (case field of None \<Rightarrow> dflt | Some v \<Rightarrow> v)"

text \<open>\<open>xs[0]\<close>.\<close>

definition first_item :: "'a list \<Rightarrow> error + 'a" where
  "first_item xs = (case xs of [] \<Rightarrow> Inl IndexError | x # _ \<Rightarrow> Inr x)"

text \<open>Truth value of \<open>d.get(key)\<close> for a list-valued key: \<open>None\<close> and \<open>[]\<close> are false.\<close>

definition truthy :: "'a list option \<Rightarrow> bool" where
  "truthy field = (case field of None \<Rightarrow> False | Some [] \<Rightarrow> False | Some (_ # _) \<Rightarrow> True)"

section \<open>Configuration, collaborators and the world\<close>

text \<open>The module constants of lines 18 to 23 that the two operations read.\<close>

record config =
  GEMINI_API_KEY :: string
  SEMANTIC_WEIGHT :: pyfloat
  KEYWORD_WEIGHT :: pyfloat
  MIN_MATCH_SCORE :: pyfloat

text \<open>
  The defaults of lines 21 to 23: \<open>float("0.7")\<close> is the binary64 number nearest to
  7/10, and so on. The credential has no usable default, it is a parameter.
\<close>

definition default_config :: "string \<Rightarrow> config" where
  "default_config key =
     \<lparr>GEMINI_API_KEY = key, SEMANTIC_WEIGHT = binary64 (7 / 10),
      KEYWORD_WEIGHT = binary64 (3 / 10), MIN_MATCH_SCORE = binary64 (1 / 2)\<rparr>"

text \<open>
  The external calls. \<open>embed_content\<close> is \<open>genai.embed_content(...)["embedding"]\<close> of
  lines 53 to 58; \<open>cosine_similarity\<close> is scikit-learn's function applied to two
  vectors, \<open>[0][0]\<close> of its result taken; \<open>reasoning_reply\<close> is the text of the
  generation model's reply to the prompt that lines 76 to 98 build from the
  description, the signal and the score; \<open>email_reply\<close> is the reply to the prompt of
  lines 169 to 207, built from the description, the recipient line, the signal and the
  match score. Each may raise.
\<close>

record collaborators =
  embed_content :: "string \<Rightarrow> error + vec"
  cosine_similarity :: "vec \<Rightarrow> vec \<Rightarrow> error + pyfloat"
  reasoning_reply :: "string \<Rightarrow> signal \<Rightarrow> pyfloat \<Rightarrow> error + string"
  email_reply :: "string \<Rightarrow> string \<Rightarrow> signal \<Rightarrow> pyfloat \<Rightarrow> error + string"

text \<open>
  What outlives one request: the content of \<open>data/signals.json\<close> (\<open>None\<close> when the file
  does not exist) and the texts sent to the embedding provider so far, oldest first.
  The module keeps no signal in a global variable.
\<close>

record world =
  signals_json :: "signal list option"
  embed_calls :: "string list"

record MatchRequest =
  startup_description :: string

record EmailRequest =
  email_startup_description :: string
  email_signal :: signal
  match_score :: pyfloat

text \<open>One entry of the list under \<open>"matches"\<close> in the reply of the match operation.\<close>

record match =
  signal :: signal
  score :: pyfloat
  reasoning :: string

record email =
  subject :: string
  to :: string
  body :: string
  preview_note :: string

section \<open>The functions of \<open>backend/main.py\<close>\<close>

text \<open>\<open>load_signals\<close>, lines 43 to 47.\<close>

definition load_signals :: "world \<Rightarrow> signal list" where
  "load_signals w = (case signals_json w of None \<Rightarrow> [] | Some signals \<Rightarrow> signals)"

text \<open>\<open>get_embedding\<close>, lines 50 to 58. The call is recorded before its outcome is known.\<close>

definition get_embedding ::
  "collaborators \<Rightarrow> config \<Rightarrow> string \<Rightarrow> world \<Rightarrow> (error + vec) \<times> world" where
  "get_embedding env cfg text w =
     (if GEMINI_API_KEY cfg = [] then (Inl (HTTPException 500 ''GOOGLE_API_KEY missing''), w)
      else (embed_content env text, w\<lparr>embed_calls := embed_calls w @ [text]\<rparr>))"

text \<open>
  \<open>calculate_keyword_overlap\<close>, lines 61 to 69. \<open>len(a) / len(b)\<close> is the quotient of
  two integers rounded to a float.
\<close>

definition calculate_keyword_overlap :: "string \<Rightarrow> string list \<Rightarrow> pyfloat" where
  "calculate_keyword_overlap startup_desc signal_keywords =
     (let startup_words = set (str_split (str_lower startup_desc));
          keyword_words = set (str_split (str_lower (str_join '' '' signal_keywords)))
      in if keyword_words = {} then 0
         else let matches = startup_words \<inter> keyword_words
              in binary64 (of_nat (card matches) / of_nat (card keyword_words)))"

text \<open>\<open>generate_match_reasoning\<close>, lines 72 to 109.\<close>

definition generate_match_reasoning ::
  "collaborators \<Rightarrow> config \<Rightarrow> string \<Rightarrow> signal \<Rightarrow> pyfloat \<Rightarrow> error + string" where
  "generate_match_reasoning env cfg startup_desc sig sc =
     (if GEMINI_API_KEY cfg = [] then Inr []
      else case reasoning_reply env startup_desc sig sc of
             Inl e \<Rightarrow> Inl e
           | Inr text \<Rightarrow> Inr (str_strip text))"

text \<open>Line 143.\<close>

definition final_score :: "config \<Rightarrow> pyfloat \<Rightarrow> pyfloat \<Rightarrow> pyfloat" where
  "final_score cfg semantic_score keyword_score =
     fadd (fmul semantic_score (SEMANTIC_WEIGHT cfg)) (fmul keyword_score (KEYWORD_WEIGHT cfg))"

text \<open>Line 127.\<close>

definition signal_text :: "signal \<Rightarrow> string" where
  "signal_text sig =
     dict_get (category sig) [] @ '' '' @ dict_get (title sig) [] @ '' '' @
     dict_get (description sig) []"

text \<open>
  The body of the loop of \<open>match_startup\<close>, lines 127 to 157, for one signal. It
  returns the record as the body leaves it in memory, and the match it appends, if any.
\<close>

definition match_step ::
  "collaborators \<Rightarrow> config \<Rightarrow> MatchRequest \<Rightarrow> vec \<Rightarrow> signal \<Rightarrow> world \<Rightarrow>
     (error + match option) \<times> signal \<times> world" where
  "match_step env cfg request startup_embedding sig w =
     (case (if truthy (embedding sig) then (Inr (dict_get (embedding sig) []), sig, w)
            else case get_embedding env cfg (signal_text sig) w of
                   (Inl e, w') \<Rightarrow> (Inl e, sig, w')
                 | (Inr v, w') \<Rightarrow> (Inr v, sig\<lparr>embedding := Some v\<rparr>, w')) of
        (Inl e, sig', w') \<Rightarrow> (Inl e, sig', w')
      | (Inr signal_embedding, sig', w') \<Rightarrow>
          (case cosine_similarity env startup_embedding signal_embedding of
             Inl e \<Rightarrow> (Inl e, sig', w')
           | Inr semantic_score \<Rightarrow>
               (let keyword_score =
                      calculate_keyword_overlap (str_lower (startup_description request))
                        (dict_get (keywords_list sig') []);
                    fs = final_score cfg semantic_score keyword_score
                in if MIN_MATCH_SCORE cfg \<le> fs
                   then (case generate_match_reasoning env cfg
                                (startup_description request) sig' fs of
                           Inl e \<Rightarrow> (Inl e, sig', w')
                         | Inr r \<Rightarrow>
                             (Inr (Some \<lparr>signal = sig', score = fs, reasoning = r\<rparr>), sig', w'))
                   else (Inr None, sig', w'))))"

text \<open>
  The loop of line 126 over the loaded records. It returns the list \<open>matches\<close>, the
  records as the loop leaves them in memory, and the world.
\<close>

fun match_loop ::
  "collaborators \<Rightarrow> config \<Rightarrow> MatchRequest \<Rightarrow> vec \<Rightarrow> signal list \<Rightarrow> match list \<Rightarrow> world \<Rightarrow>
     (error + match list) \<times> signal list \<times> world" where
  "match_loop env cfg request startup_embedding [] matches w = (Inr matches, [], w)"
| "match_loop env cfg request startup_embedding (sig # rest) matches w =
     (case match_step env cfg request startup_embedding sig w of
        (Inl e, sig', w') \<Rightarrow> (Inl e, sig' # rest, w')
      | (Inr appended, sig', w') \<Rightarrow>
          (case match_loop env cfg request startup_embedding rest
                  (case appended of None \<Rightarrow> matches | Some m \<Rightarrow> matches @ [m]) w' of
             (r, mem, w'') \<Rightarrow> (r, sig' # mem, w'')))"

text \<open>
  \<open>xs.sort(key=f, reverse=True)\<close>: the list is reversed, sorted by a stable ascending
  sort, and reversed again.
\<close>

definition sort_reverse :: "('a \<Rightarrow> 'k::linorder) \<Rightarrow> 'a list \<Rightarrow> 'a list" where
  "sort_reverse f xs = rev (sort_key f (rev xs))"

text \<open>
  \<open>match_startup\<close>, lines 117 to 160. The reply \<open>{"matches": ms}\<close> is modelled by \<open>ms\<close>.
\<close>

definition match_startup ::
  "collaborators \<Rightarrow> config \<Rightarrow> MatchRequest \<Rightarrow> world \<Rightarrow> (error + match list) \<times> world" where
  "match_startup env cfg request w =
     (let signals = load_signals w
      in if signals = [] then (Inr [], w)
         else case get_embedding env cfg (startup_description request) w of
                (Inl e, w') \<Rightarrow> (Inl e, w')
              | (Inr startup_embedding, w') \<Rightarrow>
                  (case match_loop env cfg request startup_embedding signals [] w' of
                     (Inl e, mem, w'') \<Rightarrow> (Inl e, w'')
                   | (Inr matches, mem, w'') \<Rightarrow>
                       (Inr (take 10 (sort_reverse score matches)), w'')))"

text \<open>The recipient line of the prompt, line 175.\<close>

definition prompt_recipient :: "signal \<Rightarrow> error + string" where
  "prompt_recipient sig =
     (if truthy (stakeholders sig)
      then first_item (dict_get (stakeholders sig) [''City Official''])
      else Inr ''City Official'')"

text \<open>\<open>generate_email\<close>, lines 163 to 225.\<close>

definition generate_email :: "collaborators \<Rightarrow> config \<Rightarrow> EmailRequest \<Rightarrow> error + email" where
  "generate_email env cfg request =
     (if GEMINI_API_KEY cfg = [] then Inl (HTTPException 500 ''GOOGLE_API_KEY missing'')
      else let sig = email_signal request
           in case prompt_recipient sig of
                Inl e \<Rightarrow> Inl e
              | Inr recipient \<Rightarrow>
                  (case email_reply env (email_startup_description request) recipient sig
                          (match_score request) of
                     Inl e \<Rightarrow> Inl e
                   | Inr text \<Rightarrow>
                       (let email_body = str_strip text
                        in case first_item (dict_get (stakeholders sig) [''City Official'']) of
                             Inl e \<Rightarrow> Inl e
                           | Inr recipient_field \<Rightarrow>
                               Inr \<lparr>subject = ''Re: '' @ dict_get (title sig) ''Opportunity'' @
                                                '' - Partnership Opportunity'',
                                    to = recipient_field,
                                    body = email_body,
                                    preview_note =
                                      ''This is a preview. Review and customize before sending.''\<rparr>)))"

section \<open>The loop body as functions of the signal\<close>

text \<open>
  The parts of the loop body, lines 127 to 157, named so that statements about the
  operation can speak of them. \<open>used_embedding\<close> is the value of \<open>signal_embedding\<close>
  after lines 128 to 131 when a credential is configured.
\<close>

definition used_embedding :: "collaborators \<Rightarrow> signal \<Rightarrow> error + vec" where
  "used_embedding env sig =
     (if truthy (embedding sig) then Inr (dict_get (embedding sig) [])
      else embed_content env (signal_text sig))"

text \<open>The record as lines 128 to 131 leave it.\<close>

definition attached :: "collaborators \<Rightarrow> signal \<Rightarrow> signal" where
  "attached env sig =
     (if truthy (embedding sig) then sig
      else case embed_content env (signal_text sig) of
             Inl e \<Rightarrow> sig
           | Inr v \<Rightarrow> sig\<lparr>embedding := Some v\<rparr>)"

text \<open>The value of \<open>final_score\<close> at line 143 for the signal.\<close>

definition combined_score ::
  "collaborators \<Rightarrow> config \<Rightarrow> MatchRequest \<Rightarrow> vec \<Rightarrow> signal \<Rightarrow> error + pyfloat" where
  "combined_score env cfg request startup_embedding sig =
     (case used_embedding env sig of
        Inl e \<Rightarrow> Inl e
      | Inr signal_embedding \<Rightarrow>
          (case cosine_similarity env startup_embedding signal_embedding of
             Inl e \<Rightarrow> Inl e
           | Inr semantic_score \<Rightarrow>
               Inr (final_score cfg semantic_score
                      (calculate_keyword_overlap (str_lower (startup_description request))
                         (dict_get (keywords_list sig) [])))))"

text \<open>The test of line 145 for the signal.\<close>

definition meets_threshold ::
  "collaborators \<Rightarrow> config \<Rightarrow> MatchRequest \<Rightarrow> vec \<Rightarrow> signal \<Rightarrow> bool" where
  "meets_threshold env cfg request startup_embedding sig =
     (case combined_score env cfg request startup_embedding sig of
        Inl e \<Rightarrow> False
      | Inr fs \<Rightarrow> MIN_MATCH_SCORE cfg \<le> fs)"

text \<open>What one pass of the body appends to \<open>matches\<close>, or the exception it raises.\<close>

definition step_outcome ::
  "collaborators \<Rightarrow> config \<Rightarrow> MatchRequest \<Rightarrow> vec \<Rightarrow> signal \<Rightarrow> error + match option" where
  "step_outcome env cfg request startup_embedding sig =
     (case combined_score env cfg request startup_embedding sig of
        Inl e \<Rightarrow> Inl e
      | Inr fs \<Rightarrow>
          if MIN_MATCH_SCORE cfg \<le> fs
          then (case generate_match_reasoning env cfg (startup_description request)
                       (attached env sig) fs of
                  Inl e \<Rightarrow> Inl e
                | Inr r \<Rightarrow> Inr (Some \<lparr>signal = attached env sig, score = fs, reasoning = r\<rparr>))
          else Inr None)"

text \<open>The world after one pass of the body.\<close>

definition step_world :: "signal \<Rightarrow> world \<Rightarrow> world" where
  "step_world sig w =
     (if truthy (embedding sig) then w
      else w\<lparr>embed_calls := embed_calls w @ [signal_text sig]\<rparr>)"

text \<open>The matches of a list of signals, in the order of the list.\<close>

definition loop_matches ::
  "collaborators \<Rightarrow> config \<Rightarrow> MatchRequest \<Rightarrow> vec \<Rightarrow> signal list \<Rightarrow> match list" where
  "loop_matches env cfg request startup_embedding sigs =
     concat (map (\<lambda>s. case step_outcome env cfg request startup_embedding s of
                         Inr (Some m) \<Rightarrow> [m]
                       | _ \<Rightarrow> []) sigs)"

section \<open>Sample data\<close>

text \<open>
  A deterministic stand-in for the collaborators and a one-signal data set, used to run
  the operations on concrete inputs.
\<close>

definition sample_env :: collaborators where
  "sample_env =
     \<lparr>embed_content = (\<lambda>text. Inr [of_nat (length text), 1]),
      cosine_similarity = (\<lambda>u v. Inr (if u = v then 1 else 1 / 2)),
      reasoning_reply = (\<lambda>d s sc. Inr '' Fits the need. ''),
      email_reply = (\<lambda>d r s sc. Inr (''Dear '' @ r @ '', ''))\<rparr>"

definition sample_signal :: signal where
  "sample_signal =
     \<lparr>category = Some ''IT'', title = Some ''AI procurement'', description = Some ''Pilot'',
      budget = Some 50000, timeline = Some ''Q3'',
      keywords_list = Some [''AI'', ''procurement''], stakeholders = Some [],
      embedding = None\<rparr>"

definition sample_request :: MatchRequest where
  "sample_request = \<lparr>startup_description = ''We build an AI procurement assistant''\<rparr>"

definition sample_email_request :: EmailRequest where
  "sample_email_request =
     \<lparr>email_startup_description = ''We build an AI procurement assistant'',
      email_signal = sample_signal, match_score = 87\<rparr>"

definition empty_world :: world where
  "empty_world = \<lparr>signals_json = None, embed_calls = []\<rparr>"

definition sample_world :: world where
  "sample_world = \<lparr>signals_json = Some [sample_signal], embed_calls = []\<rparr>"

text \<open>
  A data set of four signals: the sample signal (no embedding), one with a cached
  embedding, one off topic whose cached embedding is the empty vector, and one whose
  cached embedding is the description's. A data set of twelve copies of the second.
\<close>

definition cached_signal :: signal where
  "cached_signal =
     \<lparr>category = Some ''IT'', title = Some ''Procurement desk'', description = Some ''AI help'',
      budget = Some 20000, timeline = Some ''Q4'',
      keywords_list = Some [''AI'', ''procurement''], stakeholders = Some [''Dana Lee''],
      embedding = Some [1, 2]\<rparr>"

definition off_topic_signal :: signal where
  "off_topic_signal =
     \<lparr>category = Some ''Works'', title = Some ''Road repair'', description = Some ''Paving'',
      budget = None, timeline = None,
      keywords_list = Some [''roads''], stakeholders = None,
      embedding = Some []\<rparr>"

definition best_signal :: signal where
  "best_signal =
     \<lparr>category = Some ''IT'', title = Some ''Assistant'', description = Some ''Buying'',
      budget = Some 90000, timeline = Some ''Q1'',
      keywords_list = Some [''AI'', ''procurement''], stakeholders = Some [''Sam Roe''],
      embedding = Some [36, 1]\<rparr>"

definition ranking_world :: world where
  "ranking_world =
     \<lparr>signals_json = Some [sample_signal, cached_signal, off_topic_signal, best_signal],
      embed_calls = []\<rparr>"

definition crowded_world :: world where
  "crowded_world = \<lparr>signals_json = Some (replicate 12 cached_signal), embed_calls = []\<rparr>"

section \<open>The email draft\<close>

text \<open>
  With a credential and a reply from the generation model, a signal whose
  \<open>stakeholders\<close> is the empty list makes line 222 raise: the default of \<open>get\<close> applies
  to an absent key only, so \<open>[][0]\<close> is evaluated.
\<close>

lemma generate_email_no_stakeholders:
  assumes "GEMINI_API_KEY cfg \<noteq> []"
    and "stakeholders (email_signal request) = Some []"
    and "email_reply env (email_startup_description request) ''City Official''
           (email_signal request) (match_score request) = Inr text"
  shows "generate_email env cfg request = Inl IndexError"
  using assms
  by (simp add: generate_email_def prompt_recipient_def truthy_def first_item_def dict_get_def)

text \<open>
  Claim C1: an email-draft request whose signal has \<open>stakeholders\<close> equal to the empty
  sequence succeeds with \<open>to\<close> equal to \<open>'City Official'\<close>. On the sample request, whose
  signal has \<open>stakeholders = []\<close>, the prompt of line 175 names \<open>'City Official'\<close> as the
  recipient, and the operation ends in \<open>IndexError\<close> instead of a reply.
\<close>

theorem generate_email_empty_stakeholders:
  "stakeholders (email_signal sample_email_request) = Some [] \<and>
   prompt_recipient (email_signal sample_email_request) = Inr ''City Official'' \<and>
   generate_email sample_env (default_config ''key'') sample_email_request = Inl IndexError"
  by (simp add: sample_email_request_def sample_signal_def sample_env_def generate_email_def
      prompt_recipient_def truthy_def first_item_def dict_get_def default_config_def)

section \<open>The match operation: credential and empty data set\<close>

text \<open>
  Claim C3: when the signal collection is empty, the match operation returns the empty
  match list at once, whatever the description and the credential; the world is the
  one it started from, so the embedding provider was not called.
\<close>

theorem match_startup_no_signals:
  "load_signals w = [] \<Longrightarrow> match_startup env cfg request w = (Inr [], w)"
  by (simp add: match_startup_def)

theorem match_startup_no_signals_witness:
  "load_signals empty_world = [] \<and>
   match_startup sample_env (default_config []) sample_request empty_world =
     (Inr [], empty_world) \<and>
   embed_calls empty_world = []"
proof -
  have h: "load_signals empty_world = []"
    by (simp add: load_signals_def empty_world_def)
  show ?thesis
    using h match_startup_no_signals [OF h, of sample_env "default_config []" sample_request]
    by (simp add: empty_world_def)
qed

text \<open>
  Claim C2, as amended: when the credential is absent and the signal collection is not
  empty, the match operation raises the configuration error (status 500, detail
  \<open>GOOGLE_API_KEY missing\<close>) and calls no provider. With an empty collection it returns
  the empty list instead, as the counterexample shows.
\<close>

theorem match_startup_missing_credential:
  "GEMINI_API_KEY cfg = [] \<Longrightarrow> load_signals w \<noteq> [] \<Longrightarrow>
   match_startup env cfg request w = (Inl (HTTPException 500 ''GOOGLE_API_KEY missing''), w)"
  by (simp add: match_startup_def get_embedding_def)

theorem match_startup_missing_credential_witness:
  "GEMINI_API_KEY (default_config []) = [] \<and> load_signals sample_world \<noteq> [] \<and>
   match_startup sample_env (default_config []) sample_request sample_world =
     (Inl (HTTPException 500 ''GOOGLE_API_KEY missing''), sample_world)"
proof -
  have k: "GEMINI_API_KEY (default_config []) = []"
    by (simp add: default_config_def)
  have s: "load_signals sample_world \<noteq> []"
    by (simp add: load_signals_def sample_world_def)
  show ?thesis
    using k s match_startup_missing_credential [OF k s, of sample_env sample_request]
    by simp
qed

theorem match_startup_missing_credential_counterexample:
  "GEMINI_API_KEY (default_config []) = [] \<and>
   match_startup sample_env (default_config []) sample_request empty_world =
     (Inr [], empty_world)"
  by (simp add: default_config_def match_startup_def load_signals_def empty_world_def)

section \<open>Rounding to binary64\<close>

text \<open>
  The rounded significand is within one half of the exact one, and the exponent brackets
  the number; so rounding moves a number by at most the fraction \<open>2\<^sup>-\<^sup>5\<^sup>3\<close> of it and keeps
  it between the powers of two around it.
\<close>

lemma round_half_even_cases:
  obtains "round_half_even x = \<lfloor>x\<rfloor>" and "x - of_int \<lfloor>x\<rfloor> \<le> 1 / 2"
  | "round_half_even x = \<lfloor>x\<rfloor> + 1" and "1 / 2 \<le> x - of_int \<lfloor>x\<rfloor>"
  unfolding round_half_even_def Let_def
  by (cases "x - of_int \<lfloor>x\<rfloor> < 1 / 2"; cases "1 / 2 < x - of_int \<lfloor>x\<rfloor>"; cases "even \<lfloor>x\<rfloor>") auto

lemma round_half_even_upper: "of_int (round_half_even x) - x \<le> (1 / 2 :: rat)"
proof -
  have "x < of_int \<lfloor>x\<rfloor> + 1" "of_int \<lfloor>x\<rfloor> \<le> x" by linarith+
  then show ?thesis
    by (cases x rule: round_half_even_cases) (simp; linarith)+
qed

lemma round_half_even_lower: "x - of_int (round_half_even x) \<le> (1 / 2 :: rat)"
proof -
  have "x < of_int \<lfloor>x\<rfloor> + 1" "of_int \<lfloor>x\<rfloor> \<le> x" by linarith+
  then show ?thesis
    by (cases x rule: round_half_even_cases) (simp; linarith)+
qed

lemma round_half_even_le: "x \<le> of_int k \<Longrightarrow> round_half_even x \<le> k"
proof -
  assume a: "x \<le> of_int k"
  then have f: "\<lfloor>x\<rfloor> \<le> k" by (simp add: floor_le_iff)
  show ?thesis
  proof (cases "\<lfloor>x\<rfloor> = k")
    case True
    then have "x = of_int k" using a by (metis of_int_floor_le order_antisym)
    then show ?thesis by (simp add: round_half_even_def)
  next
    case False
    with f have "\<lfloor>x\<rfloor> + 1 \<le> k" by simp
    with f show ?thesis by (cases x rule: round_half_even_cases) simp_all
  qed
qed

lemma round_half_even_ge: "of_int k \<le> x \<Longrightarrow> k \<le> round_half_even x"
proof -
  assume "of_int k \<le> x"
  then have "k \<le> \<lfloor>x\<rfloor>" by (simp add: le_floor_iff)
  then show ?thesis by (cases x rule: round_half_even_cases) simp_all
qed

lemma float_exponent_lower:
  assumes "x \<noteq> 0"
  shows "2 powi float_exponent x \<le> \<bar>x\<bar>"
proof (cases "1 \<le> \<bar>x\<bar>")
  case True
  define n where "n = \<lfloor>\<bar>x\<bar>\<rfloor>"
  have n: "0 < n" using True by (simp add: n_def)
  have e: "float_exponent x = bitlen n - 1" using True by (simp add: float_exponent_def n_def)
  have b: "0 \<le> bitlen n - 1" using n by (simp add: bitlen_alt_def)
  have "2 ^ nat (bitlen n - 1) \<le> n" using bitlen_bounds [OF n] by simp
  then have "(2::rat) ^ nat (bitlen n - 1) \<le> of_int n"
    by (metis of_int_le_iff of_int_numeral of_int_power)
  also have "\<dots> \<le> \<bar>x\<bar>" by (simp add: n_def)
  finally show ?thesis using b by (simp add: e power_int_def)
next
  case False
  define c where "c = \<lceil>1 / \<bar>x\<bar>\<rceil>"
  define k where "k = bitlen (c - 1)"
  have x: "0 < \<bar>x\<bar>" "\<bar>x\<bar> < 1" using assms False by auto
  then have y: "1 < 1 / \<bar>x\<bar>" by simp
  then have c: "0 < c - 1" by (simp add: c_def less_ceiling_iff)
  have e: "float_exponent x = - k" using False by (simp add: float_exponent_def k_def c_def)
  have kpos: "0 < k" using c by (simp add: k_def bitlen_alt_def)
  have "c - 1 < 2 ^ nat k" using bitlen_bounds [OF c] by (simp add: k_def)
  then have "c \<le> 2 ^ nat k" by simp
  then have "(of_int c :: rat) \<le> 2 ^ nat k"
    by (metis of_int_le_iff of_int_numeral of_int_power)
  moreover have "1 / \<bar>x\<bar> \<le> of_int c" by (simp add: c_def)
  ultimately have "1 / \<bar>x\<bar> \<le> 2 ^ nat k" by linarith
  then have "1 / 2 ^ nat k \<le> \<bar>x\<bar>" using x
    by (simp add: field_simps)
  then show ?thesis using kpos by (simp add: e power_int_def field_simps)
qed

lemma float_exponent_upper:
  assumes "x \<noteq> 0"
  shows "\<bar>x\<bar> < 2 powi (float_exponent x + 1)"
proof (cases "1 \<le> \<bar>x\<bar>")
  case True
  define n where "n = \<lfloor>\<bar>x\<bar>\<rfloor>"
  have n: "0 < n" using True by (simp add: n_def)
  have e: "float_exponent x = bitlen n - 1" using True by (simp add: float_exponent_def n_def)
  have b: "0 \<le> bitlen n" by (rule bitlen_nonneg)
  have "n < 2 ^ nat (bitlen n)" using bitlen_bounds [OF n] by simp
  then have "n + 1 \<le> 2 ^ nat (bitlen n)" by simp
  then have "(of_int (n + 1) :: rat) \<le> 2 ^ nat (bitlen n)"
    by (metis of_int_le_iff of_int_numeral of_int_power)
  moreover have "\<bar>x\<bar> < of_int (n + 1)" unfolding n_def by linarith
  ultimately show ?thesis using b by (simp add: e power_int_def)
next
  case False
  define c where "c = \<lceil>1 / \<bar>x\<bar>\<rceil>"
  define k where "k = bitlen (c - 1)"
  have x: "0 < \<bar>x\<bar>" "\<bar>x\<bar> < 1" using assms False by auto
  then have y: "1 < 1 / \<bar>x\<bar>" by simp
  then have c: "0 < c - 1" by (simp add: c_def less_ceiling_iff)
  have e: "float_exponent x = - k" using False by (simp add: float_exponent_def k_def c_def)
  have kpos: "0 < k" using c by (simp add: k_def bitlen_alt_def)
  have "2 ^ nat (k - 1) \<le> c - 1" using bitlen_bounds [OF c] by (simp add: k_def)
  then have "(2::rat) ^ nat (k - 1) \<le> of_int (c - 1)"
    by (metis of_int_le_iff of_int_numeral of_int_power)
  moreover have "of_int (c - 1) < 1 / \<bar>x\<bar>" unfolding c_def by linarith
  ultimately have "2 ^ nat (k - 1) < 1 / \<bar>x\<bar>" by linarith
  then have "\<bar>x\<bar> < 1 / 2 ^ nat (k - 1)" using x
    by (simp add: field_simps)
  moreover have "(2::rat) powi (- k + 1) = 1 / 2 ^ nat (k - 1)"
    using kpos by (simp add: power_int_def field_simps nat_diff_distrib)
  ultimately show ?thesis by (simp add: e)
qed


lemma binary64_nonneg:
  assumes "0 \<le> x"
  shows "0 \<le> binary64 x"
proof (cases "x = 0")
  case True
  then show ?thesis by (simp add: binary64_def)
next
  case False
  define u :: rat where "u = 2 powi (float_exponent x - 52)"
  have u: "0 < u" by (simp add: u_def power_int_def)
  have "of_int 0 \<le> x / u" using assms u by simp
  then have "0 \<le> round_half_even (x / u)" by (rule round_half_even_ge)
  then show ?thesis using False u by (simp add: binary64_def Let_def u_def [symmetric])
qed

lemma binary64_le_one:
  assumes "0 \<le> x" and "x < 1"
  shows "binary64 x \<le> 1"
proof (cases "x = 0")
  case True
  then show ?thesis by (simp add: binary64_def)
next
  case False
  define e where "e = float_exponent x"
  define u :: rat where "u = 2 powi (e - 52)"
  have u: "0 < u" by (simp add: u_def power_int_def)
  have ax: "\<bar>x\<bar> = x" using assms by simp
  have lo: "2 powi e \<le> x" using float_exponent_lower [OF False] by (simp add: e_def ax)
  have hi: "x < 2 powi (e + 1)" using float_exponent_upper [OF False] by (simp add: e_def ax)
  have eneg: "e < 0"
  proof (rule ccontr)
    assume "\<not> e < 0"
    then have "(2::rat) powi 0 \<le> 2 powi e" by (intro power_int_increasing) auto
    with lo assms show False by simp
  qed
  have split: "(2::rat) powi (e + 1) = u * 2 ^ 53"
  proof -
    have "(2::rat) powi (e + 1) = 2 powi ((e - 52) + 53)"
      by (rule arg_cong [where f = "\<lambda>n. 2 powi n"]) simp
    also have "\<dots> = 2 powi (e - 52) * 2 powi 53" by (subst power_int_add) auto
    finally show ?thesis by (simp add: u_def)
  qed
  have "x < u * 2 ^ 53" using hi by (simp only: split)
  then have "x / u < 2 ^ 53" using u by (simp add: field_simps)
  then have "x / u \<le> of_int (2 ^ 53)" by simp
  then have "round_half_even (x / u) \<le> 2 ^ 53" by (rule round_half_even_le)
  then have "(of_int (round_half_even (x / u)) :: rat) \<le> 2 ^ 53"
    by (metis of_int_le_iff of_int_numeral of_int_power)
  then have "of_int (round_half_even (x / u)) * u \<le> 2 ^ 53 * u"
    using u by (intro mult_right_mono) auto
  also have "\<dots> = 2 powi (e + 1)" by (simp only: split mult.commute)
  also have "\<dots> \<le> 2 powi 0" using eneg by (intro power_int_increasing) auto
  finally show ?thesis using False by (simp add: binary64_def Let_def u_def e_def)
qed

lemma binary64_one: "binary64 1 = 1"
  by code_simp

lemma binary64_error: "\<bar>binary64 x - x\<bar> \<le> \<bar>x\<bar> / 2 ^ 53"
proof (cases "x = 0")
  case True
  then show ?thesis by (simp add: binary64_def)
next
  case False
  define e where "e = float_exponent x"
  define u :: rat where "u = 2 powi (e - 52)"
  define r where "r = round_half_even (x / u)"
  have u: "0 < u" by (simp add: u_def power_int_def)
  have lo: "2 powi e \<le> \<bar>x\<bar>" using float_exponent_lower [OF False] by (simp add: e_def)
  have b: "binary64 x = of_int r * u" using False by (simp add: binary64_def Let_def u_def e_def r_def)
  have "\<bar>of_int r - x / u\<bar> \<le> 1 / 2"
    using round_half_even_upper [of "x / u"] round_half_even_lower [of "x / u"]
    unfolding r_def by linarith
  then have "\<bar>of_int r - x / u\<bar> * u \<le> 1 / 2 * u" using u by (intro mult_right_mono) auto
  moreover have "\<bar>of_int r - x / u\<bar> * u = \<bar>of_int r * u - x\<bar>"
  proof -
    have "\<bar>of_int r - x / u\<bar> * u = \<bar>(of_int r - x / u) * u\<bar>" using u by (simp add: abs_mult)
    also have "(of_int r - x / u) * u = of_int r * u - x" using u by (simp add: field_simps)
    finally show ?thesis .
  qed
  moreover have "1 / 2 * u = 2 powi e / 2 ^ 53"
  proof -
    have "(2::rat) powi e = 2 powi ((e - 52) + 52)"
      by (rule arg_cong [where f = "\<lambda>n. 2 powi n"]) simp
    also have "\<dots> = 2 powi (e - 52) * 2 powi 52" by (subst power_int_add) auto
    finally show ?thesis by (simp add: u_def)
  qed
  ultimately have "\<bar>binary64 x - x\<bar> \<le> 2 powi e / 2 ^ 53" by (simp add: b)
  also have "\<dots> \<le> \<bar>x\<bar> / 2 ^ 53" using lo by (simp add: divide_right_mono)
  finally show ?thesis .
qed

section \<open>The keyword overlap scorer\<close>

lemma overlap_ratio_bounds:
  assumes "finite K" and "K \<noteq> {}"
  shows "0 \<le> (of_nat (card (D \<inter> K)) / of_nat (card K) :: rat)"
    and "(of_nat (card (D \<inter> K)) / of_nat (card K) :: rat) \<le> 1"
proof -
  have "card (D \<inter> K) \<le> card K" using assms by (intro card_mono) auto
  moreover have "0 < card K" using assms by (simp add: card_gt_0_iff)
  ultimately show "(of_nat (card (D \<inter> K)) / of_nat (card K) :: rat) \<le> 1" by simp
  show "0 \<le> (of_nat (card (D \<inter> K)) / of_nat (card K) :: rat)" by simp
qed

lemma binary64_unit_interval:
  assumes "0 \<le> x" and "x \<le> 1"
  shows "0 \<le> binary64 x" and "binary64 x \<le> 1"
proof -
  show "0 \<le> binary64 x" using assms by (simp add: binary64_nonneg)
  show "binary64 x \<le> 1"
  proof (cases "x = 1")
    case True
    then show ?thesis by (simp add: binary64_one)
  next
    case False
    with assms have "x < 1" by simp
    with assms show ?thesis by (simp add: binary64_le_one)
  qed
qed

text \<open>
  Claim C8: with \<open>D\<close> the set of white-space tokens of the lower-cased description and
  \<open>K\<close> the set of white-space tokens of the lower-cased, space-joined keywords, the
  overlap score is 0 when \<open>K\<close> is empty, and otherwise \<open>|D \<inter> K| / |K|\<close>, as the float
  that Python's division of the two lengths returns (the quotient rounded to binary64,
  at most \<open>2\<^sup>-\<^sup>5\<^sup>3\<close> away from it); it lies in \<open>[0, 1]\<close>. Tokens are split at white space
  only and compared as they stand after lower-casing.
\<close>

theorem calculate_keyword_overlap_ratio:
  "let D = set (str_split (str_lower d));
       K = set (str_split (str_lower (str_join '' '' ks)));
       q = (of_nat (card (D \<inter> K)) / of_nat (card K) :: rat)
   in (K = {} \<longrightarrow> calculate_keyword_overlap d ks = 0) \<and>
      (K \<noteq> {} \<longrightarrow> calculate_keyword_overlap d ks = binary64 q \<and>
         \<bar>calculate_keyword_overlap d ks - q\<bar> \<le> 1 / 2 ^ 53) \<and>
      0 \<le> calculate_keyword_overlap d ks \<and> calculate_keyword_overlap d ks \<le> 1"
proof -
  define D where "D = set (str_split (str_lower d))"
  define K where "K = set (str_split (str_lower (str_join '' '' ks)))"
  define q :: rat where "q = of_nat (card (D \<inter> K)) / of_nat (card K)"
  have fin: "finite K" by (simp add: K_def)
  have empty: "calculate_keyword_overlap d ks = 0" if "K = {}"
    using that by (simp add: calculate_keyword_overlap_def Let_def K_def)
  have val: "calculate_keyword_overlap d ks = binary64 q" if "K \<noteq> {}"
    using that by (simp add: calculate_keyword_overlap_def Let_def K_def D_def q_def)
  have q: "0 \<le> q" "q \<le> 1" if "K \<noteq> {}"
    using overlap_ratio_bounds [OF fin that, of D] by (simp_all add: q_def)
  have err: "\<bar>binary64 q - q\<bar> \<le> 1 / 2 ^ 53" if "K \<noteq> {}"
  proof -
    have "\<bar>binary64 q - q\<bar> \<le> \<bar>q\<bar> / 2 ^ 53" by (rule binary64_error)
    also have "\<dots> \<le> 1 / 2 ^ 53" using q [OF that] by (simp add: divide_right_mono)
    finally show ?thesis .
  qed
  have range: "0 \<le> calculate_keyword_overlap d ks \<and> calculate_keyword_overlap d ks \<le> 1"
  proof (cases "K = {}")
    case True
    then show ?thesis by (simp add: empty)
  next
    case False
    then show ?thesis using binary64_unit_interval [OF q [OF False]] by (simp add: val)
  qed
  show ?thesis
    unfolding Let_def D_def [symmetric] K_def [symmetric] q_def [symmetric]
    using empty val err range by auto
qed

theorem calculate_keyword_overlap_ratio_witness:
  "set (str_split (str_lower (str_join '' '' [''AI'', ''procurement'']))) \<noteq> {} \<and>
   calculate_keyword_overlap ''We build an AI procurement assistant'' [''AI'', ''procurement''] = 1 \<and>
   set (str_split (str_lower (str_join '' '' []))) = {} \<and>
   calculate_keyword_overlap ''We build an AI procurement assistant'' [] = 0"
proof -
  have k: "set (str_split (str_lower (str_join '' '' [''AI'', ''procurement'']))) \<noteq> {}"
    by code_simp
  have e: "set (str_split (str_lower (str_join '' '' []))) = {}"
    by code_simp
  have v: "binary64 (of_nat (card (set (str_split (str_lower ''We build an AI procurement assistant'')) \<inter>
              set (str_split (str_lower (str_join '' '' [''AI'', ''procurement''])))))
            / of_nat (card (set (str_split (str_lower (str_join '' '' [''AI'', ''procurement'']))))))
           = 1"
    by code_simp
  show ?thesis
    using calculate_keyword_overlap_ratio [of "''We build an AI procurement assistant''" "[''AI'', ''procurement'']"]
      calculate_keyword_overlap_ratio [of "''We build an AI procurement assistant''" "[]"] k e v
    by (simp add: Let_def)
qed

text \<open>
  Punctuation stays in the token (\<open>ai,\<close> is not \<open>ai\<close>); case and token order do not matter.
\<close>

lemma calculate_keyword_overlap_punctuation:
  "calculate_keyword_overlap ''We use AI, daily'' [''AI''] = 0 \<and>
   calculate_keyword_overlap ''Foo Bar'' [''bar'', ''foo''] = calculate_keyword_overlap ''foo bar'' [''foo bar'']"
  by code_simp

section \<open>The similarity combiner\<close>

text \<open>
  Claim C9: the combined score is \<open>semantic * SEMANTIC_WEIGHT + keyword * KEYWORD_WEIGHT\<close>
  in float arithmetic, and nothing clamps it: with the default weights \<open>float("0.7")\<close>
  and \<open>float("0.3")\<close> it is exactly 1 at \<open>(1, 1)\<close> and 0 at \<open>(0, 0)\<close>, it is 2 at \<open>(2, 2)\<close>
  and negative at \<open>(-1, 0)\<close>.
\<close>

theorem final_score_weighted_sum:
  "final_score cfg semantic keyword =
     fadd (fmul semantic (SEMANTIC_WEIGHT cfg)) (fmul keyword (KEYWORD_WEIGHT cfg)) \<and>
   SEMANTIC_WEIGHT (default_config key) = binary64 (7 / 10) \<and>
   KEYWORD_WEIGHT (default_config key) = binary64 (3 / 10) \<and>
   final_score (default_config key) 1 1 = 1 \<and>
   final_score (default_config key) 0 0 = 0 \<and>
   final_score (default_config key) 2 2 = 2 \<and>
   final_score (default_config key) (- 1) 0 < 0"
proof -
  have a: "fadd (fmul 1 (binary64 (7 / 10))) (fmul 1 (binary64 (3 / 10))) = 1" by code_simp
  have b: "fadd (fmul 0 (binary64 (7 / 10))) (fmul 0 (binary64 (3 / 10))) = 0" by code_simp
  have c: "fadd (fmul 2 (binary64 (7 / 10))) (fmul 2 (binary64 (3 / 10))) = 2" by code_simp
  have d: "fadd (fmul (- 1) (binary64 (7 / 10))) (fmul 0 (binary64 (3 / 10))) < 0" by code_simp
  show ?thesis using a b c d by (simp add: final_score_def default_config_def)
qed

section \<open>The loop of the match operation\<close>

text \<open>
  With a credential, one pass of the loop body is the three functions above; the loop
  returns a list exactly when no pass raises, and then it appends the matches of the
  signals in order, attaches the embeddings, and records one provider call for each
  signal without a usable cached embedding.
\<close>

lemma match_step_eq:
  assumes "GEMINI_API_KEY cfg \<noteq> []"
  shows "match_step env cfg request se sig w =
           (step_outcome env cfg request se sig, attached env sig, step_world sig w)"
proof (cases "truthy (embedding sig)")
  case True
  then show ?thesis
    by (simp add: match_step_def step_outcome_def combined_score_def used_embedding_def
        attached_def step_world_def Let_def split: sum.splits)
next
  case False
  show ?thesis
  proof (cases "embed_content env (signal_text sig)")
    case (Inl e)
    with False assms show ?thesis
      by (simp add: match_step_def step_outcome_def combined_score_def used_embedding_def
          attached_def step_world_def get_embedding_def)
  next
    case (Inr v)
    with False assms show ?thesis
      by (simp add: match_step_def step_outcome_def combined_score_def used_embedding_def
          attached_def step_world_def get_embedding_def Let_def truthy_def dict_get_def
          split: sum.splits)
  qed
qed

lemma loop_matches_Nil: "loop_matches env cfg request se [] = []"
  by (simp add: loop_matches_def)

lemma loop_matches_Cons:
  "loop_matches env cfg request se (s # sigs) =
     (case step_outcome env cfg request se s of Inr (Some m) \<Rightarrow> [m] | _ \<Rightarrow> []) @
     loop_matches env cfg request se sigs"
  by (simp add: loop_matches_def)

lemma match_loop_ok:
  assumes "GEMINI_API_KEY cfg \<noteq> []"
    and "\<forall>s \<in> set sigs. \<not> isl (step_outcome env cfg request se s)"
  shows "match_loop env cfg request se sigs matches w =
           (Inr (matches @ loop_matches env cfg request se sigs),
            map (attached env) sigs, fold step_world sigs w)"
  using assms(2)
proof (induction sigs arbitrary: matches w)
  case Nil
  then show ?case by (simp add: loop_matches_Nil)
next
  case (Cons s sigs)
  from Cons.prems obtain a where a: "step_outcome env cfg request se s = Inr a"
    by (cases "step_outcome env cfg request se s") auto
  from Cons.prems have rest: "\<forall>s \<in> set sigs. \<not> isl (step_outcome env cfg request se s)"
    by simp
  show ?case
    by (cases a) (simp_all add: match_step_eq [OF assms(1)] a Cons.IH [OF rest] loop_matches_Cons)
qed

lemma match_loop_Inr:
  assumes "GEMINI_API_KEY cfg \<noteq> []"
    and "match_loop env cfg request se sigs matches w = (Inr ms, mem, w')"
  shows "\<forall>s \<in> set sigs. \<not> isl (step_outcome env cfg request se s)"
  using assms(2)
proof (induction sigs arbitrary: matches w mem)
  case Nil
  then show ?case by simp
next
  case (Cons s sigs)
  show ?case
  proof (cases "step_outcome env cfg request se s")
    case (Inl e)
    with Cons.prems show ?thesis by (simp add: match_step_eq [OF assms(1)])
  next
    case (Inr a)
    with Cons.prems obtain mem' where
      "match_loop env cfg request se sigs
         (case a of None \<Rightarrow> matches | Some m \<Rightarrow> matches @ [m]) (step_world s w) = (Inr ms, mem', w')"
      by (auto simp: match_step_eq [OF assms(1)] split: prod.splits)
    from Cons.IH [OF this] Inr show ?thesis by simp
  qed
qed

lemma embed_calls_fold_step_world:
  "embed_calls (fold step_world sigs w) =
     embed_calls w @ map signal_text (filter (\<lambda>s. \<not> truthy (embedding s)) sigs)"
  by (induction sigs arbitrary: w) (simp_all add: step_world_def)

lemma signals_json_fold_step_world:
  "signals_json (fold step_world sigs w) = signals_json w"
  by (induction sigs arbitrary: w) (simp_all add: step_world_def)

end
